theory Spec2Isabelle
  imports Complex_Main
begin

section \<open>Errors\<close>

text \<open>
  The Python sources signal failure by exceptions and by \<^verbatim>\<open>grass.fatal\<close>.
  \<^item> \<open>ParseError\<close>: the \<^verbatim>\<open>ValueError\<close> of \<^verbatim>\<open>int()\<close> / \<^verbatim>\<open>float()\<close> on a slice of the
    UTC string (or on the \<^verbatim>\<open>doy\<close> option);
  \<^item> \<open>RangeError\<close>: the \<^verbatim>\<open>ValueError\<close> raised by \<^verbatim>\<open>jd_to_esd\<close>;
  \<^item> \<open>UnknownBandError\<close>: the \<^verbatim>\<open>KeyError\<close> of \<^verbatim>\<open>CF_BW_ESUN[band]\<close>;
  \<^item> \<open>MissingMetadataError\<close>: \<^verbatim>\<open>grass.fatal\<close> when neither \<^verbatim>\<open>doy\<close> nor \<^verbatim>\<open>utc\<close> is given.
\<close>

datatype error =
    ParseError string
  | RangeError
  | UnknownBandError string
  | MissingMetadataError

section \<open>Python built-ins used by the sources\<close>

text \<open>
  Python floats are modelled by \<^typ>\<open>real\<close>: the arithmetic is the exact one, rounding of
  IEEE doubles is not part of the model.  \<^verbatim>\<open>int(x)\<close> on a float truncates towards zero.
\<close>

definition py_trunc :: "real \<Rightarrow> int" where
  "py_trunc x = (if 0 \<le> x then \<lfloor>x\<rfloor> else \<lceil>x\<rceil>)"

text \<open>\<^verbatim>\<open>math.radians\<close>.\<close>

definition radians :: "real \<Rightarrow> real" where
  "radians g = g * pi / 180"

text \<open>The slice \<^verbatim>\<open>s[a:b]\<close> for \<open>0 \<le> a \<le> b\<close>; it never raises.\<close>

definition slice :: "nat \<Rightarrow> nat \<Rightarrow> string \<Rightarrow> string" where
  "slice a b s = take (b - a) (drop a s)"

definition is_digit :: "char \<Rightarrow> bool" where
  "is_digit c = (48 \<le> (of_char c :: nat) \<and> (of_char c :: nat) \<le> 57)"

definition is_space :: "char \<Rightarrow> bool" where
  "is_space c = ((of_char c :: nat) = 32 \<or> (9 \<le> (of_char c :: nat) \<and> (of_char c :: nat) \<le> 13))"

definition strip :: "string \<Rightarrow> string" where
  "strip s = rev (dropWhile is_space (rev (dropWhile is_space s)))"

definition digits_val :: "string \<Rightarrow> nat" where
  "digits_val ds = foldl (\<lambda>acc c. 10 * acc + ((of_char c :: nat) - 48)) 0 ds"

text \<open>
  \<^verbatim>\<open>int(s)\<close> and \<^verbatim>\<open>float(s)\<close> on a string, for the literals a timestamp holds: surrounding
  white space, an optional sign, decimal digits and (for \<^verbatim>\<open>float\<close>) an optional fraction.
  Every other string is \<open>None\<close>, the \<^verbatim>\<open>ValueError\<close> of the built-in.  Exponents and the
  special literals \<^verbatim>\<open>inf\<close> / \<^verbatim>\<open>nan\<close> of \<^verbatim>\<open>float\<close> are outside the model and treated as
  rejected as well.
\<close>

definition unsigned_int :: "string \<Rightarrow> int option" where
  "unsigned_int ds = (if ds \<noteq> [] \<and> list_all is_digit ds then Some (int (digits_val ds)) else None)"

definition str_to_int :: "string \<Rightarrow> int option" where
  "str_to_int s =
     (case strip s of
        [] \<Rightarrow> None
      | c # cs \<Rightarrow>
          if c = CHR ''-'' then map_option uminus (unsigned_int cs)
          else if c = CHR ''+'' then unsigned_int cs
          else unsigned_int (c # cs))"

definition unsigned_float :: "string \<Rightarrow> real option" where
  "unsigned_float ds =
     (let ip = takeWhile is_digit ds; rest = dropWhile is_digit ds in
      case rest of
        [] \<Rightarrow> (if ip \<noteq> [] then Some (real (digits_val ip)) else None)
      | c # fp \<Rightarrow>
          if c = CHR ''.'' \<and> list_all is_digit fp \<and> ip @ fp \<noteq> []
          then Some (real (digits_val (ip @ fp)) / 10 ^ length fp)
          else None)"

definition str_to_float :: "string \<Rightarrow> real option" where
  "str_to_float s =
     (case strip s of
        [] \<Rightarrow> None
      | c # cs \<Rightarrow>
          if c = CHR ''-'' then map_option uminus (unsigned_float cs)
          else if c = CHR ''+'' then unsigned_float cs
          else unsigned_float (c # cs))"

section \<open>utc_to_esd.py\<close>

text \<open>The dictionary \<^verbatim>\<open>acq_utc\<close> built by \<^verbatim>\<open>extract_time_elements\<close>.\<close>

record acq_utc =
  year :: int
  month :: int
  day :: int
  hours :: int
  minutes :: int
  seconds :: real

definition parse_int :: "string \<Rightarrow> error + int" where
  "parse_int s = (case str_to_int s of None \<Rightarrow> Inl (ParseError s) | Some i \<Rightarrow> Inr i)"

definition parse_float :: "string \<Rightarrow> error + real" where
  "parse_float s = (case str_to_float s of None \<Rightarrow> Inl (ParseError s) | Some x \<Rightarrow> Inr x)"

text \<open>
  \<^verbatim>\<open>extract_time_elements\<close>: the fields are read at fixed offsets, in the order of the
  source; for January and February the year is decremented and the month raised by 12
  in the dictionary itself, before the remaining fields are read.
\<close>

definition extract_time_elements :: "string \<Rightarrow> error + acq_utc" where
  "extract_time_elements utc =
     (case parse_int (slice 0 4 utc) of Inl e \<Rightarrow> Inl e | Inr y \<Rightarrow>
     (case parse_int (slice 5 7 utc) of Inl e \<Rightarrow> Inl e | Inr m \<Rightarrow>
     (let y' = (if m = 1 \<or> m = 2 then y - 1 else y);
          m' = (if m = 1 \<or> m = 2 then m + 12 else m) in
     (case parse_int (slice 8 10 utc) of Inl e \<Rightarrow> Inl e | Inr d \<Rightarrow>
     (case parse_int (slice 11 13 utc) of Inl e \<Rightarrow> Inl e | Inr hh \<Rightarrow>
     (case parse_int (slice 14 16 utc) of Inl e \<Rightarrow> Inl e | Inr mm \<Rightarrow>
     (case parse_float (slice 17 26 utc) of Inl e \<Rightarrow> Inl e | Inr ss \<Rightarrow>
      Inr \<lparr>year = y', month = m', day = d, hours = hh, minutes = mm, seconds = ss\<rparr>)))))))"

definition universal_time :: "int \<Rightarrow> int \<Rightarrow> real \<Rightarrow> real" where
  "universal_time hh mm ss = real_of_int hh + real_of_int mm / 60 + ss / 3600"

text \<open>
  \<^verbatim>\<open>julian_day\<close>.  The module is Python 2 (it uses the \<^verbatim>\<open>print\<close> statement), so
  \<^verbatim>\<open>year / 100\<close> and \<^verbatim>\<open>A / 4\<close> on integers are floor divisions, as \<open>div\<close> on \<^typ>\<open>int\<close> is.
\<close>

definition julian_day :: "int \<Rightarrow> int \<Rightarrow> int \<Rightarrow> real \<Rightarrow> real" where
  "julian_day y m d ut =
     (let A = y div 100;
          B = 2 - A + A div 4 in
      real_of_int (py_trunc (365.25 * real_of_int (y + 4716))) +
      real_of_int (py_trunc (30.6001 * real_of_int (m + 1))) +
      real_of_int d + ut / 24 +
      real_of_int B - 1525.5)"

definition jd_to_esd :: "real \<Rightarrow> error + real" where
  "jd_to_esd jd =
     (let D = jd - 2451545;
          g = 357.529 + 0.98560028 * D;
          gr = radians g;
          dES = 1.00014 - 0.01671 * cos gr - 0.00014 * cos (2 * gr) in
      if 0.983 \<le> dES \<and> dES \<le> 1.017 then Inr dES else Inl RangeError)"

text \<open>
  The Earth-Sun distance as the specification words it, for comparison with
  \<open>jd_to_esd\<close>: \<open>g = 357.529 + 0.98560028 (jd - 2451545.0)\<close> degrees and
  \<open>1.00014 - 0.01671 cos g - 0.00014 cos 2g\<close>.
\<close>

definition esd_value :: "real \<Rightarrow> real" where
  "esd_value jd =
     1.00014 - 0.01671 * cos (radians (357.529 + 0.98560028 * (jd - 2451545)))
             - 0.00014 * cos (2 * radians (357.529 + 0.98560028 * (jd - 2451545)))"

definition utc_to_esd :: "string \<Rightarrow> error + real" where
  "utc_to_esd utc =
     (case extract_time_elements utc of Inl e \<Rightarrow> Inl e | Inr acqtim \<Rightarrow>
      let ut = universal_time (hours acqtim) (minutes acqtim) (seconds acqtim);
          jd = julian_day (year acqtim) (month acqtim) (day acqtim) ut in
      jd_to_esd jd)"

text \<open>The class \<^verbatim>\<open>AcquisitionTime\<close>: its attributes, and its constructor.\<close>

record AcquisitionTime =
  at_utc :: string
  at_year :: int
  at_month :: int
  at_day :: int
  at_hours :: int
  at_minutes :: int
  at_seconds :: real
  at_ut :: real
  at_jd :: real
  at_esd :: real

definition AcquisitionTime_init :: "string \<Rightarrow> error + AcquisitionTime" where
  "AcquisitionTime_init utc =
     (case extract_time_elements utc of Inl e \<Rightarrow> Inl e | Inr a \<Rightarrow>
     (let ut = universal_time (hours a) (minutes a) (seconds a);
          jd = julian_day (year a) (month a) (day a) ut in
     (case utc_to_esd utc of Inl e \<Rightarrow> Inl e | Inr esd \<Rightarrow>
      Inr \<lparr>at_utc = utc, at_year = year a, at_month = month a, at_day = day a,
           at_hours = hours a, at_minutes = minutes a, at_seconds = seconds a,
           at_ut = ut, at_jd = jd, at_esd = esd\<rparr>)))"

section \<open>String formatting\<close>

text \<open>
  \<^verbatim>\<open>"%f" % x\<close> prints \<open>x\<close> with six decimals, rounding the exact value half to even.
  The module builds its \<^verbatim>\<open>r.mapcalc\<close> expressions with \<^verbatim>\<open>%f\<close>, so every number of an
  expression reaches the raster engine rounded this way: \<open>fmt_f x\<close> is the number the
  printed literal denotes.  The rounding is that of the real number: where the double that
  Python holds lies on the other side of a half than the real value (a difference such as
  \<open>90 - 10.9765575\<close>), the last printed digit can differ by one.
\<close>

definition fmt_f :: "real \<Rightarrow> real" where
  "fmt_f x =
     (let y = x * 1000000;
          n = \<lfloor>y\<rfloor>;
          d = y - real_of_int n in
      real_of_int (if d < 1 / 2 then n
                   else if 1 / 2 < d then n + 1
                   else if even n then n else n + 1) / 1000000)"

text \<open>\<^verbatim>\<open>math.pi\<close>: the double nearest to \<open>\<pi>\<close>, \<^verbatim>\<open>0x1.921fb54442d18p+1\<close>.\<close>

definition math_pi :: real where
  "math_pi = 884279719003555 / 281474976710656"

section \<open>Raster expressions\<close>

text \<open>
  The expressions handed to \<^verbatim>\<open>r.mapcalc\<close>, as the raster engine parses them: \<^verbatim>\<open>*\<close> and
  \<^verbatim>\<open>/\<close> have the same precedence and associate to the left, \<^verbatim>\<open>^\<close> binds tighter, and
  \<^verbatim>\<open>cos\<close> takes its argument in degrees.  An expression is evaluated cell by cell.
  A division by zero, a null cell in the raster engine, does not arise: the divisors of
  the expressions below are bandwidths and irradiances of the calibration table.
\<close>

datatype expr =
    Num real
  | Map string
  | Mul expr expr
  | Div expr expr
  | Pow expr nat
  | Cos expr

type_synonym cell = "nat \<times> nat"
type_synonym raster = "cell \<Rightarrow> real"
type_synonym rasters = "string \<Rightarrow> raster"

fun eval :: "rasters \<Rightarrow> cell \<Rightarrow> expr \<Rightarrow> real" where
  "eval st p (Num x) = x"
| "eval st p (Map n) = st n p"
| "eval st p (Mul a b) = eval st p a * eval st p b"
| "eval st p (Div a b) = eval st p a / eval st p b"
| "eval st p (Pow a k) = eval st p a ^ k"
| "eval st p (Cos a) = cos (radians (eval st p a))"

text \<open>\<^verbatim>\<open>r.mapcalc "out = e"\<close>: the raster \<open>out\<close> is (over)written with the value of \<open>e\<close>.\<close>

definition mapcalc :: "string \<Rightarrow> expr \<Rightarrow> rasters \<Rightarrow> rasters" where
  "mapcalc out e st = st(out := (\<lambda>p. eval st p e))"

section \<open>i.worldview.toar.py\<close>

text \<open>
  \<^verbatim>\<open>CF_BW_ESUN\<close>: band name, then (effective bandwidth, solar irradiance, absolute
  calibration factor), in the order of the tuples of the source.
\<close>

definition CF_BW_ESUN :: "(string \<times> real \<times> real \<times> real) list" where
  "CF_BW_ESUN =
     [(''Pan'',     (0.28460000, 1580.8140, 0.056783450)),
      (''Coastal'', (0.04730000, 1758.2229, 0.009295654)),
      (''Blue'',    (0.05430000, 1974.2416, 0.012608250)),
      (''Green'',   (0.06300000, 1856.4104, 0.009713071)),
      (''Yellow'',  (0.03740000, 1738.4791, 0.005829815)),
      (''Red'',     (0.05740000, 1559.4555, 0.011036230)),
      (''RedEdge'', (0.03930000, 1342.0695, 0.005188136)),
      (''NIR1'',    (0.09890000, 1069.7302, 0.012243800)),
      (''NIR2'',    (0.09960000,  861.2866, 0.009042234))]"

text \<open>\<^verbatim>\<open>CF_BW_ESUN[band]\<close>: a missing key raises.\<close>

definition lookup_band :: "string \<Rightarrow> error + (real \<times> real \<times> real)" where
  "lookup_band band =
     (case map_of CF_BW_ESUN band of
        None \<Rightarrow> Inl (UnknownBandError band)
      | Some e \<Rightarrow> Inr e)"

text \<open>
  The commands the module issues to the host: \<^verbatim>\<open>grass.mapcalc\<close>, \<^verbatim>\<open>r.support\<close> (its
  title, units and description; the source and history texts are left out),
  \<^verbatim>\<open>g.rename\<close>, \<^verbatim>\<open>g.region\<close> and the temporary region.  Messages are not modelled.
\<close>

record support =
  title :: string
  units :: string
  description :: string

datatype command =
    UseTempRegion
  | DelTempRegion
  | Region string
  | Mapcalc string expr
  | Support string support
  | Rename string string

text \<open>\<^verbatim>\<open>band.split('@')[0]\<close>.\<close>

definition basename :: "string \<Rightarrow> string" where
  "basename band = takeWhile (\<lambda>c. c \<noteq> CHR ''@'') band"

text \<open>The two expressions of the module, lines 341 and 372.\<close>

definition rad_expr :: "real \<Rightarrow> string \<Rightarrow> real \<Rightarrow> expr" where
  "rad_expr acf band bw = Div (Mul (Num (fmt_f acf)) (Map band)) (Num (fmt_f bw))"

definition toar_expr :: "string \<Rightarrow> real \<Rightarrow> real \<Rightarrow> real \<Rightarrow> expr" where
  "toar_expr tmp_rad esd esun sza =
     Mul (Div (Mul (Mul (Num (fmt_f math_pi)) (Map tmp_rad)) (Pow (Num (fmt_f esd)) 2))
              (Num (fmt_f esun)))
         (Cos (Num (fmt_f sza)))"

text \<open>The letter \<open>\<mu>\<close> of the unit strings, in the UTF-8 encoding of the source file.\<close>

definition mu :: string where
  "mu = [char_of (206::nat), char_of (188::nat)]"

definition units_rad :: string where
  "units_rad = ''W / sq.m. / '' @ mu @ ''m / ster''"

definition units_toar :: string where
  "units_toar = ''Unitless planetary reflectance''"

text \<open>
  The inputs: \<^verbatim>\<open>options\<close> (an absent option is the empty string) and \<^verbatim>\<open>flags\<close>; the
  option \<^verbatim>\<open>band\<close> is given already split at the commas.
\<close>

record options =
  opt_band :: "string list"
  opt_outputsuffix :: string
  opt_utc :: string
  opt_doy :: string
  opt_sea :: string

record flags =
  flag_r :: bool
  flag_k :: bool
  flag_i :: bool

text \<open>Lines 226 to 228: the suffix of a radiance-only run.\<close>

definition output_suffix :: "bool \<Rightarrow> string \<Rightarrow> string" where
  "output_suffix radiance outputsuffix =
     (if radiance \<and> outputsuffix = ''toar'' then ''rad'' else outputsuffix)"

text \<open>Lines 270 to 281: the Earth-Sun distance.\<close>

definition main_esd :: "string \<Rightarrow> string \<Rightarrow> error + real" where
  "main_esd doy utc =
     (if doy \<noteq> [] then
        (case parse_int doy of Inl e \<Rightarrow> Inl e | Inr d \<Rightarrow> jd_to_esd (real_of_int d))
      else if utc \<noteq> [] then
        (case AcquisitionTime_init utc of Inl e \<Rightarrow> Inl e | Inr acq \<Rightarrow> Inr (at_esd acq))
      else Inl MissingMetadataError)"

text \<open>
  The body of the loop over the bands, lines 288 to 408.  \<open>tmp\<close> is the name made from
  the temporary file; \<open>tmp_toar\<close> is the module's global of that name, empty until a
  reflectance is computed.  The result holds the commands issued for the band and the
  new value of the global.
\<close>

definition process_band ::
  "string \<Rightarrow> bool \<Rightarrow> bool \<Rightarrow> string \<Rightarrow> real \<Rightarrow> real \<Rightarrow> string \<Rightarrow> string
     \<Rightarrow> error + (command list \<times> string)" where
  "process_band tmp radiance keep_region outputsuffix esd sza tmp_toar band0 =
     (let region = (if \<not> keep_region then [Region band0] else []);
          band = basename band0 in
      (case lookup_band band of Inl e \<Rightarrow> Inl e | Inr (bw, esun, acf) \<Rightarrow>
      (let tmp_rad = tmp @ ''.Radiance'';
           rad = [Mapcalc tmp_rad (rad_expr acf band bw)];
           support_rad =
             \<lparr>title = [],
              units = units_rad,
              description =
                ''Top-of-Atmosphere '' @ band @ '' band spectral Radiance [W/m^2/sr/'' @ mu @ ''m]''\<rparr>;
           tmp_toar' = (if \<not> radiance then tmp @ ''.Reflectance'' else tmp_toar);
           toar = (if \<not> radiance then [Mapcalc tmp_toar' (toar_expr tmp_rad esd esun sza)] else []);
           support_toar =
             \<lparr>title = band @ '' band (Top of Atmosphere Reflectance)'',
              units = units_toar,
              description = ''Top of Atmosphere '' @ band @ '' band spectral Reflectance''\<rparr>;
           name = basename band @ ''.'' @ outputsuffix;
           out = (if tmp_toar' \<noteq> [] then [Support tmp_toar' support_toar, Rename tmp_toar' name]
                  else if tmp_rad \<noteq> [] then [Support tmp_rad support_rad, Rename tmp_rad name]
                  else []) in
       Inr (region @ rad @ toar @ out, tmp_toar'))))"

fun process_bands ::
  "string \<Rightarrow> bool \<Rightarrow> bool \<Rightarrow> string \<Rightarrow> real \<Rightarrow> real \<Rightarrow> string \<Rightarrow> string list
     \<Rightarrow> error + command list" where
  "process_bands tmp radiance keep_region outputsuffix esd sza tmp_toar [] = Inr []"
| "process_bands tmp radiance keep_region outputsuffix esd sza tmp_toar (band # bands) =
     (case process_band tmp radiance keep_region outputsuffix esd sza tmp_toar band of
        Inl e \<Rightarrow> Inl e
      | Inr (cs, tmp_toar') \<Rightarrow>
          (case process_bands tmp radiance keep_region outputsuffix esd sza tmp_toar' bands of
             Inl e \<Rightarrow> Inl e
           | Inr cs' \<Rightarrow> Inr (cs @ cs')))"

text \<open>
  \<^verbatim>\<open>main\<close>: the commands of a run that ends normally, or the error that ends it.
  Reading the headers of the input rasters (\<^verbatim>\<open>Info\<close>) and the temporary file name are
  the host's business; the name arrives as \<open>tmp\<close>.
\<close>

definition main :: "string \<Rightarrow> options \<Rightarrow> flags \<Rightarrow> error + command list" where
  "main tmp opts flgs =
     (let radiance = flag_r flgs;
          outputsuffix = output_suffix radiance (opt_outputsuffix opts);
          keep_region = flag_k flgs in
      (case main_esd (opt_doy opts) (opt_utc opts) of Inl e \<Rightarrow> Inl e | Inr esd \<Rightarrow>
      (case parse_float (opt_sea opts) of Inl e \<Rightarrow> Inl e | Inr sea \<Rightarrow>
      (let sza = 90 - sea in
      (case process_bands tmp radiance keep_region outputsuffix esd sza [] (opt_band opts) of
         Inl e \<Rightarrow> Inl e
       | Inr cs \<Rightarrow>
           Inr ((if \<not> keep_region then [UseTempRegion] else []) @ cs @
                (if \<not> keep_region then [DelTempRegion] else [])))))))"

section \<open>i.wv.toar.py\<close>

text \<open>
  The shell script with the hard-coded acquisition: its constants and its two
  \<^verbatim>\<open>r.mapcalc\<close> expressions, lines 71 and 94 to 95, for a band with calibration factor
  \<open>K\<close>, width \<open>W\<close> and irradiance \<open>Esun\<close>.
\<close>

definition wv_PI :: real where
  "wv_PI = 3.14159265358"

definition wv_ESD :: real where
  "wv_ESD = 1.00184"

definition wv_SEA :: real where
  "wv_SEA = 53.8"

definition wv_SZA :: real where
  "wv_SZA = 90 - wv_SEA"


definition wv_toar_expr :: "string \<Rightarrow> real \<Rightarrow> expr" where
  "wv_toar_expr band Esun =
     Div (Mul (Mul (Num wv_PI) (Map (band @ ''_Radiance''))) (Pow (Num wv_ESD) 2))
         (Mul (Num Esun) (Cos (Num wv_SZA)))"

section \<open>Outputs of a run\<close>

text \<open>
  What a run hands over: the pairs (temporary map, final name) of its \<^verbatim>\<open>g.rename\<close>
  commands, and the pairs (map, unit string) of its \<^verbatim>\<open>r.support\<close> commands, in the
  order of issue.
\<close>

fun renames :: "command list \<Rightarrow> (string \<times> string) list" where
  "renames [] = []"
| "renames (Rename a b # cs) = (a, b) # renames cs"
| "renames (c # cs) = renames cs"

fun support_units :: "command list \<Rightarrow> (string \<times> string) list" where
  "support_units [] = []"
| "support_units (Support a m # cs) = (a, units m) # support_units cs"
| "support_units (c # cs) = support_units cs"

text \<open>
  The effect of the commands on the cell values of the named rasters: \<^verbatim>\<open>r.mapcalc\<close>
  writes a raster and \<^verbatim>\<open>g.rename\<close> makes it available under the new name (the old name
  is not taken away here); the other commands leave the cell values alone.
\<close>

fun exec :: "command \<Rightarrow> rasters \<Rightarrow> rasters" where
  "exec (Mapcalc out e) st = mapcalc out e st"
| "exec (Rename a b) st = st(b := st a)"
| "exec c st = st"

definition run :: "command list \<Rightarrow> rasters \<Rightarrow> rasters" where
  "run cs st = foldl (\<lambda>s c. exec c s) st cs"

text \<open>
  The effect of the commands on the unit strings of the named rasters: a raster written
  by \<^verbatim>\<open>r.mapcalc\<close> is new and has no unit, \<^verbatim>\<open>r.support\<close> sets the unit, and
  \<^verbatim>\<open>g.rename\<close> carries it to the new name.
\<close>

fun exec_units :: "command \<Rightarrow> (string \<Rightarrow> string) \<Rightarrow> (string \<Rightarrow> string)" where
  "exec_units (Mapcalc out e) u = u(out := [])"
| "exec_units (Support a m) u = u(a := units m)"
| "exec_units (Rename a b) u = u(b := u a)"
| "exec_units c u = u"

definition run_units :: "command list \<Rightarrow> (string \<Rightarrow> string) \<Rightarrow> (string \<Rightarrow> string)" where
  "run_units cs u = foldl (\<lambda>s c. exec_units c s) u cs"

text \<open>
  The array the loop body computes for a band with the table entry \<open>(bw, esun, acf)\<close>:
  the radiance expression on the cells of the band (lines 340 to 343) and, in reflectance
  mode, the reflectance expression on that radiance (lines 371 to 374).
\<close>

definition band_radiance :: "rasters \<Rightarrow> string \<Rightarrow> real \<Rightarrow> real \<Rightarrow> raster" where
  "band_radiance st band acf bw = (\<lambda>p. eval st p (rad_expr acf band bw))"

definition band_reflectance ::
  "string \<Rightarrow> rasters \<Rightarrow> string \<Rightarrow> real \<Rightarrow> real \<Rightarrow> real \<Rightarrow> real \<Rightarrow> real \<Rightarrow> raster" where
  "band_reflectance tmp st band acf bw esd esun sza =
     (\<lambda>p. eval (st(tmp @ ''.Radiance'' := band_radiance st band acf bw)) p
            (toar_expr (tmp @ ''.Radiance'') esd esun sza))"

text \<open>A scene for the examples: every cell of every raster holds the value \<open>v\<close>.\<close>

definition flat_scene :: "real \<Rightarrow> rasters" where
  "flat_scene v n p = v"

text \<open>No raster has a unit yet.\<close>

definition no_units :: "string \<Rightarrow> string" where
  "no_units n = []"

section \<open>Evaluation of the parsers on timestamps\<close>

lemmas parse_defs =
  parse_int_def parse_float_def slice_def str_to_int_def str_to_float_def unsigned_int_def
  unsigned_float_def strip_def is_space_def is_digit_def digits_val_def

lemma extract_reference:
  "extract_time_elements ''2001_10_18T18:51:26.000000Z;'' =
     Inr \<lparr>year = 2001, month = 10, day = 18, hours = 18, minutes = 51, seconds = 26\<rparr>"
  by (simp add: extract_time_elements_def parse_defs)

lemma extract_january:
  "extract_time_elements ''2014_01_12T16:47:08.000000Z;'' =
     Inr \<lparr>year = 2013, month = 13, day = 12, hours = 16, minutes = 47, seconds = 8\<rparr>"
  by (simp add: extract_time_elements_def parse_defs)

section \<open>The Earth-Sun distance is always in range\<close>

lemma esd_polynomial_range:
  fixes c :: real
  assumes "- 1 \<le> c" and "c \<le> 1"
  shows "0.983 \<le> 1.00014 - 0.01671 * c - 0.00014 * (2 * c\<^sup>2 - 1)"
    and "1.00014 - 0.01671 * c - 0.00014 * (2 * c\<^sup>2 - 1) \<le> 1.017"
proof -
  have "\<bar>c\<bar> \<le> 1"
    using assms by (simp add: abs_le_iff)
  then have sq: "c\<^sup>2 \<le> 1" "0 \<le> c\<^sup>2"
    by (simp_all add: abs_square_le_1)
  show "0.983 \<le> 1.00014 - 0.01671 * c - 0.00014 * (2 * c\<^sup>2 - 1)"
    using assms sq by (simp add: field_simps)
  show "1.00014 - 0.01671 * c - 0.00014 * (2 * c\<^sup>2 - 1) \<le> 1.017"
    using assms sq by (simp add: field_simps)
qed

lemma esd_value_bounds: "0.983 \<le> esd_value jd" "esd_value jd \<le> 1.017"
  unfolding esd_value_def cos_double_cos
  by (rule esd_polynomial_range; simp)+

lemma jd_to_esd_value: "jd_to_esd jd = Inr (esd_value jd)"
  using esd_value_bounds [of jd] by (simp add: jd_to_esd_def Let_def esd_value_def)

text \<open>
  C4.  \<open>jd_to_esd\<close> returns the value of the formula when it lies in [0.983, 1.017] and
  fails with a \<open>RangeError\<close> otherwise; the value lies in that interval for every Julian
  Day, so the failing branch is never taken.
\<close>

theorem jd_to_esd_in_range:
  "jd_to_esd jd =
     (if 0.983 \<le> esd_value jd \<and> esd_value jd \<le> 1.017 then Inr (esd_value jd) else Inl RangeError)
   \<and> 0.983 \<le> esd_value jd \<and> esd_value jd \<le> 1.017
   \<and> jd_to_esd jd = Inr (esd_value jd)"
  using esd_value_bounds [of jd] by (simp add: jd_to_esd_def Let_def esd_value_def)

theorem jd_to_esd_in_range_witness:
  "jd_to_esd 2452201 = Inr (esd_value 2452201) \<and> 0.983 \<le> esd_value 2452201
   \<and> esd_value 2452201 \<le> 1.017"
  using jd_to_esd_in_range [of 2452201] by simp

section \<open>The Julian Day of the reference example\<close>

text \<open>
  C2.  For the reference time stamp of 2001-10-18, 18:51:26 UTC, \<open>julian_day\<close> on the
  parsed fields returns 2452200.2857..., one day less than the documented 2452201.286:
  the result is not within 0.001 of the reference value.
\<close>

theorem julian_day_reference_off_by_one:
  "extract_time_elements ''2001_10_18T18:51:26.000000Z;'' =
     Inr \<lparr>year = 2001, month = 10, day = 18, hours = 18, minutes = 51, seconds = 26\<rparr>
   \<and> julian_day 2001 10 18 (universal_time 18 51 26) = 2452200 + 12343 / 43200
   \<and> \<not> \<bar>julian_day 2001 10 18 (universal_time 18 51 26) - 2452201.286\<bar> \<le> 0.001"
  by (simp add: extract_reference) (simp add: julian_day_def universal_time_def py_trunc_def)

section \<open>The acquisition time object\<close>

lemma utc_to_esd_extract:
  "extract_time_elements utc = Inr a \<Longrightarrow>
   utc_to_esd utc =
     Inr (esd_value (julian_day (year a) (month a) (day a)
                       (universal_time (hours a) (minutes a) (seconds a))))"
  by (simp add: utc_to_esd_def Let_def jd_to_esd_value)

lemma AcquisitionTime_init_extract:
  "extract_time_elements utc = Inr a \<Longrightarrow>
   AcquisitionTime_init utc =
     Inr \<lparr>at_utc = utc, at_year = year a, at_month = month a, at_day = day a,
          at_hours = hours a, at_minutes = minutes a, at_seconds = seconds a,
          at_ut = universal_time (hours a) (minutes a) (seconds a),
          at_jd = julian_day (year a) (month a) (day a)
                    (universal_time (hours a) (minutes a) (seconds a)),
          at_esd = esd_value (julian_day (year a) (month a) (day a)
                    (universal_time (hours a) (minutes a) (seconds a)))\<rparr>"
  by (simp add: AcquisitionTime_init_def Let_def utc_to_esd_extract)

lemma AcquisitionTime_init_Inr:
  assumes "AcquisitionTime_init utc = Inr acq"
  obtains a where "extract_time_elements utc = Inr a"
proof (cases "extract_time_elements utc")
  case (Inl e)
  with assms show ?thesis by (simp add: AcquisitionTime_init_def)
next
  case (Inr a)
  then show ?thesis by (rule that)
qed

text \<open>
  C10.  In a constructed \<open>AcquisitionTime\<close> the attribute \<open>esd\<close>, computed by
  \<open>utc_to_esd\<close> on the stored string, is \<open>jd_to_esd\<close> of the attribute \<open>jd\<close>, and \<open>jd\<close>
  is \<open>julian_day\<close> of the stored year, month, day and universal time.
\<close>

theorem AcquisitionTime_paths_agree:
  assumes "AcquisitionTime_init utc = Inr acq"
  shows "utc_to_esd (at_utc acq) = Inr (at_esd acq)
       \<and> jd_to_esd (at_jd acq) = Inr (at_esd acq)
       \<and> at_ut acq = universal_time (at_hours acq) (at_minutes acq) (at_seconds acq)
       \<and> at_jd acq = julian_day (at_year acq) (at_month acq) (at_day acq) (at_ut acq)"
proof -
  from assms obtain a where a: "extract_time_elements utc = Inr a"
    by (rule AcquisitionTime_init_Inr)
  from assms show ?thesis
    unfolding AcquisitionTime_init_extract [OF a]
    by (auto simp: utc_to_esd_extract [OF a] jd_to_esd_value)
qed

lemma init_reference:
  "AcquisitionTime_init ''2001_10_18T18:51:26.000000Z;'' =
     Inr \<lparr>at_utc = ''2001_10_18T18:51:26.000000Z;'', at_year = 2001, at_month = 10,
          at_day = 18, at_hours = 18, at_minutes = 51, at_seconds = 26,
          at_ut = universal_time 18 51 26,
          at_jd = julian_day 2001 10 18 (universal_time 18 51 26),
          at_esd = esd_value (julian_day 2001 10 18 (universal_time 18 51 26))\<rparr>"
  by (simp add: AcquisitionTime_init_extract [OF extract_reference])

theorem AcquisitionTime_paths_agree_witness:
  "\<not> isl (AcquisitionTime_init ''2001_10_18T18:51:26.000000Z;'')
   \<and> jd_to_esd (at_jd (projr (AcquisitionTime_init ''2001_10_18T18:51:26.000000Z;''))) =
       Inr (at_esd (projr (AcquisitionTime_init ''2001_10_18T18:51:26.000000Z;'')))
   \<and> at_jd (projr (AcquisitionTime_init ''2001_10_18T18:51:26.000000Z;'')) =
       julian_day 2001 10 18 (universal_time 18 51 26)"
  using AcquisitionTime_paths_agree [OF init_reference] by (simp add: init_reference)

lemma extract_year_month:
  assumes "extract_time_elements utc = Inr a"
    and "parse_int (slice 0 4 utc) = Inr y"
    and "parse_int (slice 5 7 utc) = Inr m"
  shows "year a = (if m = 1 \<or> m = 2 then y - 1 else y)"
    and "month a = (if m = 1 \<or> m = 2 then m + 12 else m)"
  using assms
  by (auto simp: extract_time_elements_def Let_def split: sum.splits if_splits)

lemma init_january:
  "AcquisitionTime_init ''2014_01_12T16:47:08.000000Z;'' =
     Inr \<lparr>at_utc = ''2014_01_12T16:47:08.000000Z;'', at_year = 2013, at_month = 13,
          at_day = 12, at_hours = 16, at_minutes = 47, at_seconds = 8,
          at_ut = universal_time 16 47 8,
          at_jd = julian_day 2013 13 12 (universal_time 16 47 8),
          at_esd = esd_value (julian_day 2013 13 12 (universal_time 16 47 8))\<rparr>"
  by (simp add: AcquisitionTime_init_extract [OF extract_january])

lemma january_year: "parse_int (slice 0 4 ''2014_01_12T16:47:08.000000Z;'') = Inr 2014"
  by (simp add: parse_defs)

lemma january_month: "parse_int (slice 5 7 ''2014_01_12T16:47:08.000000Z;'') = Inr 1"
  by (simp add: parse_defs)

text \<open>
  C5, as stated, fails: for the time stamp of 12 January 2014 the string holds the year
  2014 and the month 1, and the constructed object exposes the year 2013 and the
  month 13.
\<close>

theorem AcquisitionTime_january_fields:
  "parse_int (slice 0 4 ''2014_01_12T16:47:08.000000Z;'') = Inr 2014
   \<and> parse_int (slice 5 7 ''2014_01_12T16:47:08.000000Z;'') = Inr 1
   \<and> \<not> isl (AcquisitionTime_init ''2014_01_12T16:47:08.000000Z;'')
   \<and> at_year (projr (AcquisitionTime_init ''2014_01_12T16:47:08.000000Z;'')) = 2013
   \<and> at_month (projr (AcquisitionTime_init ''2014_01_12T16:47:08.000000Z;'')) = 13"
  by (simp add: january_year january_month init_january)

text \<open>
  C5, amended.  The adjustment for January and February is made in the extracted fields
  themselves: the attributes \<open>year\<close> and \<open>month\<close> of a constructed \<open>AcquisitionTime\<close>
  are the year minus 1 and the month plus 12 of the string when its month is 1 or 2, and
  the year and month of the string otherwise.
\<close>

theorem AcquisitionTime_exposes_adjusted_fields:
  assumes "AcquisitionTime_init utc = Inr acq"
    and "parse_int (slice 0 4 utc) = Inr y"
    and "parse_int (slice 5 7 utc) = Inr m"
  shows "at_year acq = (if m = 1 \<or> m = 2 then y - 1 else y)
       \<and> at_month acq = (if m = 1 \<or> m = 2 then m + 12 else m)"
proof -
  from assms(1) obtain a where a: "extract_time_elements utc = Inr a"
    by (rule AcquisitionTime_init_Inr)
  from assms(1) have "at_year acq = year a" "at_month acq = month a"
    unfolding AcquisitionTime_init_extract [OF a] by auto
  with extract_year_month [OF a assms(2,3)] show ?thesis
    by simp
qed

theorem AcquisitionTime_exposes_adjusted_fields_witness:
  "AcquisitionTime_init ''2014_01_12T16:47:08.000000Z;'' =
     Inr (projr (AcquisitionTime_init ''2014_01_12T16:47:08.000000Z;''))
   \<and> parse_int (slice 0 4 ''2014_01_12T16:47:08.000000Z;'') = Inr 2014
   \<and> parse_int (slice 5 7 ''2014_01_12T16:47:08.000000Z;'') = Inr 1
   \<and> at_year (projr (AcquisitionTime_init ''2014_01_12T16:47:08.000000Z;'')) = 2014 - 1
   \<and> at_month (projr (AcquisitionTime_init ''2014_01_12T16:47:08.000000Z;'')) = 1 + 12"
  using AcquisitionTime_exposes_adjusted_fields [OF init_january january_year january_month]
  by (simp add: january_year january_month init_january)

section \<open>The calibration table\<close>

lemma map_of_CF_BW_ESUN_None:
  "(map_of CF_BW_ESUN band = None) =
   (band \<notin> {''Pan'', ''Coastal'', ''Blue'', ''Green'', ''Yellow'', ''Red'', ''RedEdge'',
             ''NIR1'', ''NIR2''})"
  by (simp add: CF_BW_ESUN_def)

lemma lookup_green: "lookup_band ''Green'' = Inr (0.063, 1856.4104, 0.009713071)"
  by (simp add: lookup_band_def CF_BW_ESUN_def)

text \<open>
  C8.  The table holds exactly the nine bands Pan, Coastal, Blue, Green, Yellow, Red,
  RedEdge, NIR1 and NIR2; the lookup of one of them succeeds, the lookup of any other
  name fails with an \<open>UnknownBandError\<close>, and so does the processing of such a band.
\<close>

theorem lookup_band_known_iff:
  "map fst CF_BW_ESUN =
     [''Pan'', ''Coastal'', ''Blue'', ''Green'', ''Yellow'', ''Red'', ''RedEdge'', ''NIR1'', ''NIR2'']
   \<and> length CF_BW_ESUN = 9
   \<and> distinct (map fst CF_BW_ESUN)
   \<and> (lookup_band band = Inl (UnknownBandError band)) =
       (band \<notin> {''Pan'', ''Coastal'', ''Blue'', ''Green'', ''Yellow'', ''Red'', ''RedEdge'',
                 ''NIR1'', ''NIR2''})
   \<and> (\<exists>e. lookup_band band = Inr e) =
       (band \<in> {''Pan'', ''Coastal'', ''Blue'', ''Green'', ''Yellow'', ''Red'', ''RedEdge'',
                 ''NIR1'', ''NIR2''})
   \<and> (basename band \<notin> {''Pan'', ''Coastal'', ''Blue'', ''Green'', ''Yellow'', ''Red'',
                         ''RedEdge'', ''NIR1'', ''NIR2''} \<longrightarrow>
        process_band tmp radiance keep_region outputsuffix esd sza tmp_toar band =
          Inl (UnknownBandError (basename band)))"
proof -
  have names: "map fst CF_BW_ESUN =
     [''Pan'', ''Coastal'', ''Blue'', ''Green'', ''Yellow'', ''Red'', ''RedEdge'', ''NIR1'', ''NIR2'']"
    by (simp add: CF_BW_ESUN_def)
  have len: "length CF_BW_ESUN = 9"
    by (simp add: CF_BW_ESUN_def)
  have dist: "distinct (map fst CF_BW_ESUN)"
    unfolding names by simp
  have unknown: "(lookup_band b = Inl (UnknownBandError b)) =
       (b \<notin> {''Pan'', ''Coastal'', ''Blue'', ''Green'', ''Yellow'', ''Red'', ''RedEdge'',
                 ''NIR1'', ''NIR2''})" for b
    unfolding map_of_CF_BW_ESUN_None [symmetric]
    by (simp add: lookup_band_def split: option.splits)
  have known: "(\<exists>e. lookup_band b = Inr e) =
       (b \<in> {''Pan'', ''Coastal'', ''Blue'', ''Green'', ''Yellow'', ''Red'', ''RedEdge'',
                 ''NIR1'', ''NIR2''})" for b
    using map_of_CF_BW_ESUN_None [of b]
    by (auto simp: lookup_band_def split: option.splits)
  have proc: "process_band tmp radiance keep_region outputsuffix esd sza tmp_toar band =
          Inl (UnknownBandError (basename band))"
    if "basename band \<notin> {''Pan'', ''Coastal'', ''Blue'', ''Green'', ''Yellow'', ''Red'',
                         ''RedEdge'', ''NIR1'', ''NIR2''}"
    using that unknown [of "basename band"] by (simp add: process_band_def Let_def)
  show ?thesis
    apply (intro conjI impI)
         apply (rule names)
        apply (rule len)
       apply (rule dist)
      apply (rule unknown)
     apply (rule known)
    apply (erule proc)
    done
qed

theorem lookup_band_known_iff_witness:
  "lookup_band ''Foo'' = Inl (UnknownBandError ''Foo'')
   \<and> lookup_band ''Green'' = Inr (0.063, 1856.4104, 0.009713071)
   \<and> process_band ''tmp.1'' False False ''toar'' 1 36.2 [] ''Foo@PERMANENT'' =
       Inl (UnknownBandError ''Foo'')"
proof -
  have foo: "basename ''Foo@PERMANENT'' = ''Foo''"
    by (simp add: basename_def)
  have "''Foo'' \<notin> {''Pan'', ''Coastal'', ''Blue'', ''Green'', ''Yellow'', ''Red'', ''RedEdge'',
                     ''NIR1'', ''NIR2''}"
    by simp
  moreover have "basename ''Foo@PERMANENT'' \<notin> {''Pan'', ''Coastal'', ''Blue'', ''Green'', ''Yellow'',
        ''Red'', ''RedEdge'', ''NIR1'', ''NIR2''} \<longrightarrow>
      process_band ''tmp.1'' False False ''toar'' 1 36.2 [] ''Foo@PERMANENT'' =
        Inl (UnknownBandError (basename ''Foo@PERMANENT''))"
    using lookup_band_known_iff [of "''Foo@PERMANENT''" "''tmp.1''" False False "''toar''" 1 "36.2" "[]"]
    by (elim conjE)
  ultimately have "process_band ''tmp.1'' False False ''toar'' 1 36.2 [] ''Foo@PERMANENT'' =
          Inl (UnknownBandError ''Foo'')"
    unfolding foo by (rule rev_mp)
  then show ?thesis
    by (simp add: lookup_green) (simp add: lookup_band_def CF_BW_ESUN_def)
qed

section \<open>Radiance\<close>



section \<open>The choice of the Earth-Sun distance\<close>

lemma parse_doy_100: "parse_int ''100'' = Inr 100"
  by (simp add: parse_defs)

lemma parse_sea_538: "parse_float ''53.8'' = Inr 53.8"
  by (simp add: parse_defs)

lemma main_esd_doy:
  "doy \<noteq> [] \<Longrightarrow>
   main_esd doy utc =
     (case parse_int doy of Inl e \<Rightarrow> Inl e | Inr d \<Rightarrow> Inr (esd_value (real_of_int d)))"
  by (simp add: main_esd_def jd_to_esd_value split: sum.splits)

lemma main_esd_100: "main_esd ''100'' utc = Inr (esd_value 100)"
  by (simp add: main_esd_doy parse_doy_100)

section \<open>One band, one run\<close>

lemma basename_idem: "basename (basename band) = basename band"
  by (simp add: basename_def)

lemma renames_append: "renames (xs @ ys) = renames xs @ renames ys"
  by (induction xs rule: renames.induct) simp_all

lemma support_units_append: "support_units (xs @ ys) = support_units xs @ support_units ys"
  by (induction xs rule: support_units.induct) simp_all

lemma process_band_outputs:
  assumes "process_band tmp radiance keep_region outputsuffix esd sza tmp_toar band = Inr (cs, t)"
    and "radiance \<longrightarrow> tmp_toar = []"
  shows "renames cs =
           [(tmp @ (if radiance then ''.Radiance'' else ''.Reflectance''),
             basename band @ ''.'' @ outputsuffix)]"
    and "support_units cs =
           [(tmp @ (if radiance then ''.Radiance'' else ''.Reflectance''),
             if radiance then units_rad else units_toar)]"
    and "radiance \<longrightarrow> t = []"
  using assms
  by (auto simp: process_band_def Let_def basename_idem split: sum.splits prod.splits)

lemma process_bands_outputs:
  assumes "process_bands tmp radiance keep_region outputsuffix esd sza tmp_toar bands = Inr cs"
    and "radiance \<longrightarrow> tmp_toar = []"
  shows "renames cs =
           map (\<lambda>b. (tmp @ (if radiance then ''.Radiance'' else ''.Reflectance''),
                      basename b @ ''.'' @ outputsuffix)) bands
       \<and> support_units cs =
           map (\<lambda>b. (tmp @ (if radiance then ''.Radiance'' else ''.Reflectance''),
                      if radiance then units_rad else units_toar)) bands"
  using assms
proof (induction bands arbitrary: tmp_toar cs)
  case Nil
  then show ?case by simp
next
  case (Cons b bands)
  from Cons.prems(1) obtain c1 t c2 where
    b: "process_band tmp radiance keep_region outputsuffix esd sza tmp_toar b = Inr (c1, t)"
    and bs: "process_bands tmp radiance keep_region outputsuffix esd sza t bands = Inr c2"
    and cs: "cs = c1 @ c2"
    by (auto split: sum.splits prod.splits)
  note out = process_band_outputs [OF b Cons.prems(2)]
  from Cons.IH [OF bs out(3)] out(1,2) show ?case
    unfolding cs renames_append support_units_append by simp
qed

lemma process_band_green:
  "process_band ''tmp.1'' False False ''toar'' esd sza [] ''Green'' =
     Inr ([Region ''Green'',
           Mapcalc ''tmp.1.Radiance'' (rad_expr 0.009713071 ''Green'' 0.063),
           Mapcalc ''tmp.1.Reflectance'' (toar_expr ''tmp.1.Radiance'' esd 1856.4104 sza),
           Support ''tmp.1.Reflectance''
             \<lparr>title = ''Green band (Top of Atmosphere Reflectance)'',
              units = units_toar,
              description = ''Top of Atmosphere Green band spectral Reflectance''\<rparr>,
           Rename ''tmp.1.Reflectance'' ''Green.toar''],
          ''tmp.1.Reflectance'')"
  by (simp add: process_band_def Let_def basename_def lookup_green)

lemma main_green:
  "main ''tmp.1''
     \<lparr>opt_band = [''Green''], opt_outputsuffix = ''toar'', opt_utc = utc, opt_doy = ''100'',
      opt_sea = ''53.8''\<rparr>
     \<lparr>flag_r = False, flag_k = False, flag_i = False\<rparr> =
   Inr [UseTempRegion,
        Region ''Green'',
        Mapcalc ''tmp.1.Radiance'' (rad_expr 0.009713071 ''Green'' 0.063),
        Mapcalc ''tmp.1.Reflectance''
          (toar_expr ''tmp.1.Radiance'' (esd_value 100) 1856.4104 (90 - 53.8)),
        Support ''tmp.1.Reflectance''
          \<lparr>title = ''Green band (Top of Atmosphere Reflectance)'',
           units = units_toar,
           description = ''Top of Atmosphere Green band spectral Reflectance''\<rparr>,
        Rename ''tmp.1.Reflectance'' ''Green.toar'',
        DelTempRegion]"
  by (simp add: main_def Let_def output_suffix_def main_esd_100 parse_sea_538 process_band_green)

text \<open>
  C6, as stated, fails: an invocation that supplies both the day of year and the UTC
  string is accepted; the day of year is used.
\<close>

theorem doy_and_utc_both_supplied:
  "main_esd ''100'' ''2001_10_18T18:51:26.000000Z;'' = Inr (esd_value 100)
   \<and> \<not> isl (main ''tmp.1''
              \<lparr>opt_band = [''Green''], opt_outputsuffix = ''toar'',
               opt_utc = ''2001_10_18T18:51:26.000000Z;'', opt_doy = ''100'',
               opt_sea = ''53.8''\<rparr>
              \<lparr>flag_r = False, flag_k = False, flag_i = False\<rparr>)"
  by (simp add: main_esd_100 main_green)

text \<open>
  C6, amended.  At least one of the UTC string and the day of year is needed: with both
  absent the run fails with a \<open>MissingMetadataError\<close>.  A supplied day of year is used
  whether or not a UTC string is supplied as well (it overrides the string); the UTC
  string is used when the day of year is absent.
\<close>

theorem esd_source_selection:
  "main_esd [] [] = Inl MissingMetadataError
   \<and> main tmp (opts\<lparr>opt_doy := [], opt_utc := []\<rparr>) flgs = Inl MissingMetadataError
   \<and> (doy \<noteq> [] \<longrightarrow>
        main_esd doy utc =
          (case parse_int doy of Inl e \<Rightarrow> Inl e | Inr d \<Rightarrow> jd_to_esd (real_of_int d)))
   \<and> (utc \<noteq> [] \<longrightarrow>
        main_esd [] utc =
          (case AcquisitionTime_init utc of Inl e \<Rightarrow> Inl e | Inr acq \<Rightarrow> Inr (at_esd acq)))"
  by (simp add: main_esd_def main_def Let_def)

theorem esd_source_selection_witness:
  "''100'' \<noteq> [] \<and> ''2001_10_18T18:51:26.000000Z;'' \<noteq> []
   \<and> main_esd ''100'' ''2001_10_18T18:51:26.000000Z;'' = jd_to_esd 100
   \<and> main_esd [] ''2001_10_18T18:51:26.000000Z;'' =
       Inr (esd_value (julian_day 2001 10 18 (universal_time 18 51 26)))
   \<and> main_esd [] [] = Inl MissingMetadataError"
  using esd_source_selection
          [of "''tmp.1''" "\<lparr>opt_band = [], opt_outputsuffix = [], opt_utc = [], opt_doy = [], opt_sea = []\<rparr>"
              "\<lparr>flag_r = False, flag_k = False, flag_i = False\<rparr>"
              "''100''" "''2001_10_18T18:51:26.000000Z;''"]
  by (simp add: parse_doy_100 init_reference)

section \<open>The outputs of a run\<close>

text \<open>
  C3, as stated, fails: a run in reflectance mode on the band Green ends normally and
  hands over one map, the reflectance; the radiance stays under its temporary name.
\<close>

theorem reflectance_run_delivers_reflectance_only:
  "\<not> isl (main ''tmp.1''
            \<lparr>opt_band = [''Green''], opt_outputsuffix = ''toar'', opt_utc = [],
             opt_doy = ''100'', opt_sea = ''53.8''\<rparr>
            \<lparr>flag_r = False, flag_k = False, flag_i = False\<rparr>)
   \<and> renames (projr (main ''tmp.1''
            \<lparr>opt_band = [''Green''], opt_outputsuffix = ''toar'', opt_utc = [],
             opt_doy = ''100'', opt_sea = ''53.8''\<rparr>
            \<lparr>flag_r = False, flag_k = False, flag_i = False\<rparr>)) =
       [(''tmp.1.Reflectance'', ''Green.toar'')]
   \<and> support_units (projr (main ''tmp.1''
            \<lparr>opt_band = [''Green''], opt_outputsuffix = ''toar'', opt_utc = [],
             opt_doy = ''100'', opt_sea = ''53.8''\<rparr>
            \<lparr>flag_r = False, flag_k = False, flag_i = False\<rparr>)) =
       [(''tmp.1.Reflectance'', ''Unitless planetary reflectance'')]"
  by (simp add: main_green units_toar_def)

text \<open>
  What the commands of a band, and of all bands, leave in the rasters and in their units.
  The names written are the two temporary names and the output names; a band of the
  table has no dot in its name and does not begin with \<open>t\<close>, so that no input and no
  earlier output is overwritten with anything but the same output.
\<close>

lemma run_append: "run (xs @ ys) st = run ys (run xs st)"
  by (simp add: run_def)

lemma run_units_append: "run_units (xs @ ys) u = run_units ys (run_units xs u)"
  by (simp add: run_units_def)

lemma known_band_shape:
  assumes "lookup_band band = Inr e"
  shows "CHR ''.'' \<notin> set band" and "band \<noteq> []" and "hd band \<noteq> CHR ''t''"
proof -
  from assms have "map_of CF_BW_ESUN band \<noteq> None"
    by (auto simp: lookup_band_def split: option.splits)
  then have "band \<in> {''Pan'', ''Coastal'', ''Blue'', ''Green'', ''Yellow'', ''Red'', ''RedEdge'',
             ''NIR1'', ''NIR2''}"
    unfolding map_of_CF_BW_ESUN_None by simp
  then show "CHR ''.'' \<notin> set band" and "band \<noteq> []" and "hd band \<noteq> CHR ''t''"
    by auto
qed

lemma output_name_not_tmp:
  assumes "lookup_band band = Inr e"
  shows "band @ ''.'' @ suffix \<noteq> (''tmp.'' @ base) @ x"
proof -
  from known_band_shape [OF assms] have "hd (band @ ''.'' @ suffix) \<noteq> CHR ''t''"
    by simp
  then show ?thesis
    by auto
qed

lemma output_name_inj: "a @ ''.'' @ suffix = b @ ''.'' @ suffix \<Longrightarrow> a = b"
  by simp

lemma process_band_known:
  assumes "process_band tmp radiance keep_region suffix esd sza tmp_toar band = Inr (cs, t)"
  shows "\<exists>e. lookup_band (basename band) = Inr e"
  using assms by (auto simp: process_band_def Let_def split: sum.splits)

lemma process_band_cells:
  assumes "process_band tmp radiance keep_region suffix esd sza tmp_toar band = Inr (cs, t)"
    and "radiance \<longrightarrow> tmp_toar = []"
  shows "\<exists>bw esun acf. lookup_band (basename band) = Inr (bw, esun, acf) \<and>
           run cs st (basename band @ ''.'' @ suffix) =
             (if radiance then band_radiance st (basename band) acf bw
              else band_reflectance tmp st (basename band) acf bw esd esun sza)"
  using assms
  by (cases radiance; cases keep_region)
     (auto simp: process_band_def Let_def run_def mapcalc_def band_radiance_def
        band_reflectance_def basename_idem split: sum.splits prod.splits)

lemma process_band_cells_frame:
  assumes "process_band tmp radiance keep_region suffix esd sza tmp_toar band = Inr (cs, t)"
    and "radiance \<longrightarrow> tmp_toar = []"
    and "x \<noteq> tmp @ ''.Radiance''" and "x \<noteq> tmp @ ''.Reflectance''"
    and "x \<noteq> basename band @ ''.'' @ suffix"
  shows "run cs st x = st x"
  using assms
  by (cases radiance; cases keep_region)
     (auto simp: process_band_def Let_def run_def mapcalc_def basename_idem
        split: sum.splits prod.splits)

lemma process_band_units:
  assumes "process_band tmp radiance keep_region suffix esd sza tmp_toar band = Inr (cs, t)"
    and "radiance \<longrightarrow> tmp_toar = []"
  shows "run_units cs u (basename band @ ''.'' @ suffix) =
           (if radiance then units_rad else units_toar)"
  using assms
  by (cases radiance; cases keep_region)
     (auto simp: process_band_def Let_def run_units_def basename_idem
        split: sum.splits prod.splits)

lemma process_band_units_frame:
  assumes "process_band tmp radiance keep_region suffix esd sza tmp_toar band = Inr (cs, t)"
    and "radiance \<longrightarrow> tmp_toar = []"
    and "x \<noteq> tmp @ ''.Radiance''" and "x \<noteq> tmp @ ''.Reflectance''"
    and "x \<noteq> basename band @ ''.'' @ suffix"
  shows "run_units cs u x = u x"
  using assms
  by (cases radiance; cases keep_region)
     (auto simp: process_band_def Let_def run_units_def basename_idem
        split: sum.splits prod.splits)

lemma band_radiance_cong:
  "st band = st' band \<Longrightarrow> band_radiance st band acf bw = band_radiance st' band acf bw"
  by (simp add: band_radiance_def rad_expr_def)

lemma band_reflectance_cong:
  "st band = st' band \<Longrightarrow>
   band_reflectance tmp st band acf bw esd esun sza =
   band_reflectance tmp st' band acf bw esd esun sza"
  by (simp add: band_reflectance_def toar_expr_def band_radiance_cong [of st band st'])

lemma no_dot_neq: "CHR ''.'' \<notin> set x \<Longrightarrow> x \<noteq> a @ CHR ''.'' # c"
  by auto

lemma process_bands_Cons:
  assumes "process_bands tmp radiance keep_region suffix esd sza tmp_toar (b # bands) = Inr cs"
  obtains c1 t c2 where
    "process_band tmp radiance keep_region suffix esd sza tmp_toar b = Inr (c1, t)"
    and "process_bands tmp radiance keep_region suffix esd sza t bands = Inr c2"
    and "cs = c1 @ c2"
  using assms by (auto split: sum.splits prod.splits)

lemma process_bands_cells_frame:
  assumes "process_bands tmp radiance keep_region suffix esd sza tmp_toar bands = Inr cs"
    and "radiance \<longrightarrow> tmp_toar = []"
    and "x \<noteq> tmp @ ''.Radiance''" and "x \<noteq> tmp @ ''.Reflectance''"
    and "x \<notin> (\<lambda>b. basename b @ ''.'' @ suffix) ` set bands"
  shows "run cs st x = st x"
  using assms
proof (induction bands arbitrary: tmp_toar cs st b)
  case Nil
  then show ?case by (simp add: run_def)
next
  case (Cons b bands)
  from Cons.prems(1) obtain c1 t c2 where
    b: "process_band tmp radiance keep_region suffix esd sza tmp_toar b = Inr (c1, t)"
    and bs: "process_bands tmp radiance keep_region suffix esd sza t bands = Inr c2"
    and cs: "cs = c1 @ c2"
    by (rule process_bands_Cons)
  note t = process_band_outputs(3) [OF b Cons.prems(2)]
  from Cons.prems(5) have x: "x \<noteq> basename b @ ''.'' @ suffix"
    and xs: "x \<notin> (\<lambda>b. basename b @ ''.'' @ suffix) ` set bands"
    by auto
  have "run cs st x = run c2 (run c1 st) x"
    by (simp add: cs run_append)
  also have "\<dots> = run c1 st x"
    by (rule Cons.IH [OF bs t Cons.prems(3,4) xs])
  also have "\<dots> = st x"
    by (rule process_band_cells_frame [OF b Cons.prems(2,3,4) x])
  finally show ?case .
qed

lemma process_bands_units_frame:
  assumes "process_bands tmp radiance keep_region suffix esd sza tmp_toar bands = Inr cs"
    and "radiance \<longrightarrow> tmp_toar = []"
    and "x \<noteq> tmp @ ''.Radiance''" and "x \<noteq> tmp @ ''.Reflectance''"
    and "x \<notin> (\<lambda>b. basename b @ ''.'' @ suffix) ` set bands"
  shows "run_units cs u x = u x"
  using assms
proof (induction bands arbitrary: tmp_toar cs u b)
  case Nil
  then show ?case by (simp add: run_units_def)
next
  case (Cons b bands)
  from Cons.prems(1) obtain c1 t c2 where
    b: "process_band tmp radiance keep_region suffix esd sza tmp_toar b = Inr (c1, t)"
    and bs: "process_bands tmp radiance keep_region suffix esd sza t bands = Inr c2"
    and cs: "cs = c1 @ c2"
    by (rule process_bands_Cons)
  note t = process_band_outputs(3) [OF b Cons.prems(2)]
  from Cons.prems(5) have x: "x \<noteq> basename b @ ''.'' @ suffix"
    and xs: "x \<notin> (\<lambda>b. basename b @ ''.'' @ suffix) ` set bands"
    by auto
  have "run_units cs u x = run_units c2 (run_units c1 u) x"
    by (simp add: cs run_units_append)
  also have "\<dots> = run_units c1 u x"
    by (rule Cons.IH [OF bs t Cons.prems(3,4) xs])
  also have "\<dots> = u x"
    by (rule process_band_units_frame [OF b Cons.prems(2,3,4) x])
  finally show ?case .
qed

lemma process_bands_cells:
  assumes "process_bands (''tmp.'' @ base) radiance keep_region suffix esd sza tmp_toar bands = Inr cs"
    and "radiance \<longrightarrow> tmp_toar = []"
    and "b \<in> set bands"
  shows "\<exists>bw esun acf. lookup_band (basename b) = Inr (bw, esun, acf) \<and>
           run cs st (basename b @ ''.'' @ suffix) =
             (if radiance then band_radiance st (basename b) acf bw
              else band_reflectance (''tmp.'' @ base) st (basename b) acf bw esd esun sza)"
  using assms
proof (induction bands arbitrary: tmp_toar cs st b)
  case Nil
  then show ?case by simp
next
  case (Cons b0 bands)
  let ?tmp = "''tmp.'' @ base"
  let ?name = "\<lambda>b. basename b @ ''.'' @ suffix"
  let ?out = "\<lambda>st b acf bw esun.
     if radiance then band_radiance st (basename b) acf bw
     else band_reflectance ?tmp st (basename b) acf bw esd esun sza"
  from Cons.prems(1) obtain c1 t c2 where
    b0: "process_band ?tmp radiance keep_region suffix esd sza tmp_toar b0 = Inr (c1, t)"
    and bs: "process_bands ?tmp radiance keep_region suffix esd sza t bands = Inr c2"
    and cs: "cs = c1 @ c2"
    by (rule process_bands_Cons)
  note t = process_band_outputs(3) [OF b0 Cons.prems(2)]
  have run: "run cs st x = run c2 (run c1 st) x" for x
    by (simp add: cs run_append)
  from process_band_known [OF b0] obtain e0 where e0: "lookup_band (basename b0) = Inr e0" ..
  show ?case
  proof (cases "?name b \<in> ?name ` set bands")
    case True
    then obtain b' where b': "b' \<in> set bands" and name: "?name b' = ?name b"
      by auto
    from name have base: "basename b' = basename b"
      by simp
    from Cons.IH [OF bs t b', of "run c1 st"] obtain bw esun acf where
      look: "lookup_band (basename b') = Inr (bw, esun, acf)"
      and out: "run c2 (run c1 st) (?name b') = ?out (run c1 st) b' acf bw esun"
      by blast
    note shape = known_band_shape [OF look]
    have "run c1 st (basename b') = st (basename b')"
      using shape(1) by (intro process_band_cells_frame [OF b0 Cons.prems(2)]) (auto simp: no_dot_neq)
    then have "?out (run c1 st) b' acf bw esun = ?out st b' acf bw esun"
      by (simp add: band_radiance_cong [of "run c1 st" "basename b'" st]
            band_reflectance_cong [of "run c1 st" "basename b'" st])
    with out have "run cs st (?name b') = ?out st b' acf bw esun"
      by (simp add: run)
    with look show ?thesis
      unfolding name base by blast
  next
    case False
    with Cons.prems(3) have b: "b = b0"
      by auto
    from process_band_cells [OF b0 Cons.prems(2), of st] obtain bw esun acf where
      look: "lookup_band (basename b0) = Inr (bw, esun, acf)"
      and out: "run c1 st (?name b0) = ?out st b0 acf bw esun"
      by blast
    have "run c2 (run c1 st) (?name b0) = run c1 st (?name b0)"
      using False output_name_not_tmp [OF look, of suffix base]
      by (intro process_bands_cells_frame [OF bs t]) (simp_all add: b)
    with out have "run cs st (?name b0) = ?out st b0 acf bw esun"
      by (simp add: run)
    with look show ?thesis
      unfolding b by blast
  qed
qed

lemma process_bands_units:
  assumes "process_bands (''tmp.'' @ base) radiance keep_region suffix esd sza tmp_toar bands = Inr cs"
    and "radiance \<longrightarrow> tmp_toar = []"
    and "b \<in> set bands"
  shows "run_units cs u (basename b @ ''.'' @ suffix) =
           (if radiance then units_rad else units_toar)"
  using assms
proof (induction bands arbitrary: tmp_toar cs u b)
  case Nil
  then show ?case by simp
next
  case (Cons b0 bands)
  let ?tmp = "''tmp.'' @ base"
  let ?name = "\<lambda>b. basename b @ ''.'' @ suffix"
  from Cons.prems(1) obtain c1 t c2 where
    b0: "process_band ?tmp radiance keep_region suffix esd sza tmp_toar b0 = Inr (c1, t)"
    and bs: "process_bands ?tmp radiance keep_region suffix esd sza t bands = Inr c2"
    and cs: "cs = c1 @ c2"
    by (rule process_bands_Cons)
  note t = process_band_outputs(3) [OF b0 Cons.prems(2)]
  have run: "run_units cs u x = run_units c2 (run_units c1 u) x" for x
    by (simp add: cs run_units_append)
  from process_band_known [OF b0] obtain e0 where e0: "lookup_band (basename b0) = Inr e0" ..
  show ?case
  proof (cases "?name b \<in> ?name ` set bands")
    case True
    then obtain b' where b': "b' \<in> set bands" and name: "?name b' = ?name b"
      by auto
    from Cons.IH [OF bs t b', of "run_units c1 u"] show ?thesis
      unfolding run name .
  next
    case False
    with Cons.prems(3) have b: "b = b0"
      by auto
    have "run_units c2 (run_units c1 u) (?name b0) = run_units c1 u (?name b0)"
      using False output_name_not_tmp [OF e0, of suffix base]
      by (intro process_bands_units_frame [OF bs t]) (simp_all add: b)
    with process_band_units [OF b0 Cons.prems(2), of u] show ?thesis
      by (simp add: run b)
  qed
qed

lemma main_Inr:
  assumes "main tmp opts flgs = Inr cs"
  obtains esd sea c where
    "main_esd (opt_doy opts) (opt_utc opts) = Inr esd"
    and "parse_float (opt_sea opts) = Inr sea"
    and "process_bands tmp (flag_r flgs) (flag_k flgs)
           (output_suffix (flag_r flgs) (opt_outputsuffix opts)) esd (90 - sea) []
           (opt_band opts) = Inr c"
    and "cs = (if \<not> flag_k flgs then [UseTempRegion] else []) @ c @
              (if \<not> flag_k flgs then [DelTempRegion] else [])"
  using assms by (auto simp: main_def Let_def split: sum.splits)

lemma run_regions:
  "run ((if k then [UseTempRegion] else []) @ c @ (if k then [DelTempRegion] else [])) st =
     run c st"
  by (simp add: run_def)

lemma run_units_regions:
  "run_units ((if k then [UseTempRegion] else []) @ c @ (if k then [DelTempRegion] else [])) u =
     run_units c u"
  by (simp add: run_units_def)

text \<open>
  C3, amended.  A run that ends normally hands over exactly one map for every requested
  band, under the name of the band followed by the suffix: in radiance mode the radiance
  computed from the band, with the unit string \<open>W / sq.m. / \<mu>m / ster\<close>, and in
  reflectance mode the reflectance computed from that radiance, with the unit string
  \<open>Unitless planetary reflectance\<close>; in reflectance mode the radiance stays under its
  temporary name.  The temporary names begin with \<^verbatim>\<open>tmp.\<close>, as line 264 makes them.
\<close>

theorem one_output_per_band:
  assumes "main (''tmp.'' @ base) opts flgs = Inr cs"
  shows "renames cs =
           map (\<lambda>b. ((''tmp.'' @ base) @ (if flag_r flgs then ''.Radiance'' else ''.Reflectance''),
                      basename b @ ''.'' @ output_suffix (flag_r flgs) (opt_outputsuffix opts)))
               (opt_band opts)
       \<and> support_units cs =
           map (\<lambda>b. ((''tmp.'' @ base) @ (if flag_r flgs then ''.Radiance'' else ''.Reflectance''),
                      if flag_r flgs then units_rad else units_toar))
               (opt_band opts)
       \<and> units_rad = ''W / sq.m. / '' @ [char_of (206::nat), char_of (188::nat)] @ ''m / ster''
       \<and> units_toar = ''Unitless planetary reflectance''
       \<and> (\<exists>esd sea.
            main_esd (opt_doy opts) (opt_utc opts) = Inr esd
            \<and> parse_float (opt_sea opts) = Inr sea
            \<and> (\<forall>b\<in>set (opt_band opts).
                 \<exists>bw esun acf.
                   lookup_band (basename b) = Inr (bw, esun, acf)
                   \<and> run cs st
                       (basename b @ ''.'' @ output_suffix (flag_r flgs) (opt_outputsuffix opts)) =
                       (if flag_r flgs then band_radiance st (basename b) acf bw
                        else band_reflectance (''tmp.'' @ base) st (basename b) acf bw
                               esd esun (90 - sea))
                   \<and> run_units cs u
                       (basename b @ ''.'' @ output_suffix (flag_r flgs) (opt_outputsuffix opts)) =
                       (if flag_r flgs then units_rad else units_toar)))"
proof -
  from assms obtain esd sea c where
    esd: "main_esd (opt_doy opts) (opt_utc opts) = Inr esd"
    and sea: "parse_float (opt_sea opts) = Inr sea"
    and bands: "process_bands (''tmp.'' @ base) (flag_r flgs) (flag_k flgs)
              (output_suffix (flag_r flgs) (opt_outputsuffix opts)) esd (90 - sea) []
              (opt_band opts) = Inr c"
    and cs: "cs = (if \<not> flag_k flgs then [UseTempRegion] else []) @ c @
                  (if \<not> flag_k flgs then [DelTempRegion] else [])"
    by (rule main_Inr)
  have inv: "flag_r flgs \<longrightarrow> ([]::string) = []"
    by simp
  have lists: "renames cs =
           map (\<lambda>b. ((''tmp.'' @ base) @ (if flag_r flgs then ''.Radiance'' else ''.Reflectance''),
                      basename b @ ''.'' @ output_suffix (flag_r flgs) (opt_outputsuffix opts)))
               (opt_band opts)
       \<and> support_units cs =
           map (\<lambda>b. ((''tmp.'' @ base) @ (if flag_r flgs then ''.Radiance'' else ''.Reflectance''),
                      if flag_r flgs then units_rad else units_toar))
               (opt_band opts)"
    using process_bands_outputs [OF bands inv]
    unfolding cs renames_append support_units_append by simp
  have strings: "units_rad = ''W / sq.m. / '' @ [char_of (206::nat), char_of (188::nat)] @ ''m / ster''
       \<and> units_toar = ''Unitless planetary reflectance''"
    by (simp add: units_rad_def units_toar_def mu_def)
  have delivered: "\<exists>bw esun acf.
                   lookup_band (basename b) = Inr (bw, esun, acf)
                   \<and> run cs st
                       (basename b @ ''.'' @ output_suffix (flag_r flgs) (opt_outputsuffix opts)) =
                       (if flag_r flgs then band_radiance st (basename b) acf bw
                        else band_reflectance (''tmp.'' @ base) st (basename b) acf bw
                               esd esun (90 - sea))
                   \<and> run_units cs u
                       (basename b @ ''.'' @ output_suffix (flag_r flgs) (opt_outputsuffix opts)) =
                       (if flag_r flgs then units_rad else units_toar)"
    if b: "b \<in> set (opt_band opts)" for b
    using process_bands_cells [OF bands inv b, of st] process_bands_units [OF bands inv b, of u]
    unfolding cs run_regions run_units_regions by blast
  from esd sea delivered have "\<exists>esd sea.
            main_esd (opt_doy opts) (opt_utc opts) = Inr esd
            \<and> parse_float (opt_sea opts) = Inr sea
            \<and> (\<forall>b\<in>set (opt_band opts).
                 \<exists>bw esun acf.
                   lookup_band (basename b) = Inr (bw, esun, acf)
                   \<and> run cs st
                       (basename b @ ''.'' @ output_suffix (flag_r flgs) (opt_outputsuffix opts)) =
                       (if flag_r flgs then band_radiance st (basename b) acf bw
                        else band_reflectance (''tmp.'' @ base) st (basename b) acf bw
                               esd esun (90 - sea))
                   \<and> run_units cs u
                       (basename b @ ''.'' @ output_suffix (flag_r flgs) (opt_outputsuffix opts)) =
                       (if flag_r flgs then units_rad else units_toar))"
    by blast
  with lists strings show ?thesis
    by (intro conjI) (elim conjE, assumption)+
qed

theorem one_output_per_band_witness:
  "main (''tmp.'' @ ''1'')
     \<lparr>opt_band = [''Green''], opt_outputsuffix = ''toar'', opt_utc = [], opt_doy = ''100'',
      opt_sea = ''53.8''\<rparr>
     \<lparr>flag_r = False, flag_k = False, flag_i = False\<rparr> =
   Inr (projr (main ''tmp.1''
     \<lparr>opt_band = [''Green''], opt_outputsuffix = ''toar'', opt_utc = [], opt_doy = ''100'',
      opt_sea = ''53.8''\<rparr>
     \<lparr>flag_r = False, flag_k = False, flag_i = False\<rparr>))
   \<and> renames (projr (main ''tmp.1''
     \<lparr>opt_band = [''Green''], opt_outputsuffix = ''toar'', opt_utc = [], opt_doy = ''100'',
      opt_sea = ''53.8''\<rparr>
     \<lparr>flag_r = False, flag_k = False, flag_i = False\<rparr>)) =
       [(''tmp.1.Reflectance'', ''Green.toar'')]
   \<and> run (projr (main ''tmp.1''
     \<lparr>opt_band = [''Green''], opt_outputsuffix = ''toar'', opt_utc = [], opt_doy = ''100'',
      opt_sea = ''53.8''\<rparr>
     \<lparr>flag_r = False, flag_k = False, flag_i = False\<rparr>)) (flat_scene 100) ''Green.toar'' =
       band_reflectance ''tmp.1'' (flat_scene 100) ''Green'' 0.009713071 0.063
         (esd_value 100) 1856.4104 (90 - 53.8)
   \<and> run_units (projr (main ''tmp.1''
     \<lparr>opt_band = [''Green''], opt_outputsuffix = ''toar'', opt_utc = [], opt_doy = ''100'',
      opt_sea = ''53.8''\<rparr>
     \<lparr>flag_r = False, flag_k = False, flag_i = False\<rparr>)) no_units ''Green.toar'' =
       ''Unitless planetary reflectance''"
proof -
  let ?opts = "\<lparr>opt_band = [''Green''], opt_outputsuffix = ''toar'', opt_utc = [],
                opt_doy = ''100'', opt_sea = ''53.8''\<rparr>"
  let ?flgs = "\<lparr>flag_r = False, flag_k = False, flag_i = False\<rparr>"
  have m: "main (''tmp.'' @ ''1'') ?opts ?flgs = Inr (projr (main ''tmp.1'' ?opts ?flgs))"
    by (simp add: main_green)
  note inst = one_output_per_band [OF m, of "flat_scene 100" no_units]
  from inst have rn: "renames (projr (main ''tmp.1'' ?opts ?flgs)) =
      [(''tmp.1.Reflectance'', ''Green.toar'')]"
    by (simp add: basename_def output_suffix_def)
  from inst have "\<exists>esd sea. main_esd ''100'' [] = Inr esd \<and> parse_float ''53.8'' = Inr sea \<and>
      (\<exists>bw esun acf. lookup_band ''Green'' = Inr (bw, esun, acf) \<and>
         run (projr (main ''tmp.1'' ?opts ?flgs)) (flat_scene 100) ''Green.toar'' =
           band_reflectance ''tmp.1'' (flat_scene 100) ''Green'' acf bw esd esun (90 - sea) \<and>
         run_units (projr (main ''tmp.1'' ?opts ?flgs)) no_units ''Green.toar'' = units_toar)"
    by (simp add: basename_def output_suffix_def)
  then obtain esd sea bw esun acf where
    e: "main_esd ''100'' [] = Inr esd"
    and s: "parse_float ''53.8'' = Inr sea"
    and l: "lookup_band ''Green'' = Inr (bw, esun, acf)"
    and r: "run (projr (main ''tmp.1'' ?opts ?flgs)) (flat_scene 100) ''Green.toar'' =
           band_reflectance ''tmp.1'' (flat_scene 100) ''Green'' acf bw esd esun (90 - sea)"
    and u: "run_units (projr (main ''tmp.1'' ?opts ?flgs)) no_units ''Green.toar'' = units_toar"
    by blast
  from e have esd: "esd = esd_value 100"
    unfolding main_esd_100 by simp
  from s have sea: "sea = 53.8"
    unfolding parse_sea_538 by simp
  from l have entry: "bw = 0.063" "esun = 1856.4104" "acf = 0.009713071"
    unfolding lookup_green by simp_all
  from r have r': "run (projr (main ''tmp.1'' ?opts ?flgs)) (flat_scene 100) ''Green.toar'' =
       band_reflectance ''tmp.1'' (flat_scene 100) ''Green'' 0.009713071 0.063
         (esd_value 100) 1856.4104 (90 - 53.8)"
    unfolding esd sea entry .
  from u have u': "run_units (projr (main ''tmp.1'' ?opts ?flgs)) no_units ''Green.toar'' =
       ''Unitless planetary reflectance''"
    unfolding units_toar_def .
  from m rn r' u' show ?thesis
    by (intro conjI)
qed

section \<open>Reflectance\<close>

lemma fmt_f_math_pi: "fmt_f math_pi = 3.141593"
  by (simp add: fmt_f_def math_pi_def Let_def)

lemma fmt_f_green: "fmt_f 0.009713071 = 0.009713" "fmt_f 0.063 = 0.063" "fmt_f 1856.4104 = 1856.4104"
  by (simp_all add: fmt_f_def Let_def)

lemma fmt_f_small: "fmt_f 1 = 1" "fmt_f 60 = 60" "fmt_f (90 - 53.8) = 36.2"
  by (simp_all add: fmt_f_def Let_def)

lemma fmt_f_close: "\<bar>fmt_f x - x\<bar> \<le> 1 / 2000000"
proof -
  define y where "y = x * 1000000"
  define n where "n = \<lfloor>y\<rfloor>"
  have lo: "real_of_int n \<le> y" and hi: "y < real_of_int n + 1"
    unfolding n_def by linarith+
  have x: "x = y / 1000000"
    by (simp add: y_def)
  show ?thesis
    unfolding fmt_f_def Let_def y_def [symmetric] n_def [symmetric]
    unfolding x
    using lo hi by (simp add: abs_le_iff field_simps)
qed

lemma pi_ge_3: "3 \<le> pi"
  using sin_x_le_x [of "pi / 6"] by (simp add: sin_30)

lemma less_half_imp_less:
  fixes a b :: real
  assumes "a < b / 2" and "0 < b"
  shows "a < b"
  using assms by linarith

lemma cos_60_degrees: "cos (radians 60) = 1 / 2"
  by (simp add: radians_def cos_60)

text \<open>
  C1.  The expression of \<^verbatim>\<open>i.worldview.toar.py\<close> divides by the irradiance alone and
  multiplies the quotient by the cosine of the zenith angle; the shell script
  \<^verbatim>\<open>i.wv.toar.py\<close> divides by the product of irradiance and cosine.  For a radiance of 1,
  a distance of 1, the irradiance of Green and a zenith angle of 60 degrees, the module's
  cell value is a quarter of \<open>3.141593 / (Esun cos sza)\<close>, less than half of the value
  \<open>\<pi> / (Esun cos sza)\<close> of the formula.
\<close>

theorem toar_expr_multiplies_by_cosine:
  "eval st p (toar_expr r esd esun sza) =
     fmt_f math_pi * st r p * (fmt_f esd)\<^sup>2 / fmt_f esun * cos (radians (fmt_f sza))
   \<and> eval st p (wv_toar_expr band esun) =
       wv_PI * st (band @ ''_Radiance'') p * wv_ESD\<^sup>2 / (esun * cos (radians wv_SZA))
   \<and> eval (st(''tmp.1.Radiance'' := (\<lambda>q. 1))) p (toar_expr ''tmp.1.Radiance'' 1 1856.4104 60) =
       3.141593 / 1856.4104 * (1 / 2)
   \<and> eval (st(''tmp.1.Radiance'' := (\<lambda>q. 1))) p (toar_expr ''tmp.1.Radiance'' 1 1856.4104 60) <
       (pi * 1 * 1\<^sup>2 / (1856.4104 * cos (radians 60))) / 2"
proof -
  have shape: "eval st p (toar_expr r esd esun sza) =
     fmt_f math_pi * st r p * (fmt_f esd)\<^sup>2 / fmt_f esun * cos (radians (fmt_f sza))"
    by (simp add: toar_expr_def)
  have wv: "eval st p (wv_toar_expr band esun) =
       wv_PI * st (band @ ''_Radiance'') p * wv_ESD\<^sup>2 / (esun * cos (radians wv_SZA))"
    by (simp add: wv_toar_expr_def)
  have val: "eval (st(''tmp.1.Radiance'' := (\<lambda>q. 1))) p
               (toar_expr ''tmp.1.Radiance'' 1 1856.4104 60) = 3.141593 / 1856.4104 * (1 / 2)"
    by (simp only: toar_expr_def eval.simps fun_upd_same fmt_f_math_pi fmt_f_green fmt_f_small
          cos_60_degrees) simp
  have "(3.141593 / 1856.4104 * (1 / 2) :: real) < (pi * 1 * 1\<^sup>2 / (1856.4104 * (1 / 2))) / 2"
    using pi_ge_3 by (simp add: field_simps)
  then have less: "eval (st(''tmp.1.Radiance'' := (\<lambda>q. 1))) p
               (toar_expr ''tmp.1.Radiance'' 1 1856.4104 60) <
       (pi * 1 * 1\<^sup>2 / (1856.4104 * cos (radians 60))) / 2"
    unfolding val cos_60_degrees .
  from shape wv val less show ?thesis
    by (intro conjI)
qed

theorem toar_expr_multiplies_by_cosine_witness:
  "eval ((\<lambda>n q. 0)(''tmp.1.Radiance'' := (\<lambda>q. 1))) (0, 0)
     (toar_expr ''tmp.1.Radiance'' 1 1856.4104 60) \<noteq>
   pi * 1 * 1\<^sup>2 / (1856.4104 * cos (radians 60))"
  (is "?code \<noteq> ?formula")
proof -
  have "?code < ?formula / 2"
    using toar_expr_multiplies_by_cosine
            [of "\<lambda>n q. 0" "(0, 0)" "''tmp.1.Radiance''" 1 "1856.4104" 60 "''Green''"]
    by (elim conjE)
  moreover have "0 < ?formula"
    by (simp add: cos_60_degrees)
  ultimately have "?code < ?formula"
    by (rule less_half_imp_less)
  then show ?thesis
    by simp
qed

lemma cos_sza_bounds: "0 < cos (radians 36.2)" "(cos (radians 36.2))\<^sup>2 < 3 / 4"
proof -
  have r: "radians 36.2 = 181 * pi / 900"
    by (simp add: radians_def)
  have lo: "pi / 6 < 181 * pi / 900" and hi: "181 * pi / 900 < pi / 2"
    using pi_gt_zero by simp_all
  show pos: "0 < cos (radians 36.2)"
    unfolding r using hi pi_gt_zero by (intro cos_gt_zero_pi) linarith+
  have "cos (181 * pi / 900) < cos (pi / 6)"
    using lo hi pi_gt_zero by (intro cos_monotone_0_pi) linarith+
  then have "cos (181 * pi / 900) < sqrt 3 / 2"
    by (simp add: cos_30)
  then have "cos (radians 36.2) < sqrt 3 / 2"
    unfolding r .
  with pos have "(cos (radians 36.2))\<^sup>2 < (sqrt 3 / 2)\<^sup>2"
    by (intro power_strict_mono) simp_all
  then show "(cos (radians 36.2))\<^sup>2 < 3 / 4"
    by (simp add: power_divide)
qed

lemma fmt_f_esd_bounds:
  "0 < fmt_f (esd_value jd)" "(fmt_f (esd_value jd))\<^sup>2 \<le> 1.002001 * (esd_value jd)\<^sup>2"
proof -
  have lo: "983 / 1000 \<le> esd_value jd"
    using esd_value_bounds(1) [of jd] by simp
  have close: "\<bar>fmt_f (esd_value jd) - esd_value jd\<bar> \<le> 1 / 2000000"
    by (rule fmt_f_close)
  show pos: "0 < fmt_f (esd_value jd)"
    using lo close by linarith
  have "fmt_f (esd_value jd) \<le> (1001 / 1000) * esd_value jd"
    using lo close by linarith
  with pos have "(fmt_f (esd_value jd))\<^sup>2 \<le> ((1001 / 1000) * esd_value jd)\<^sup>2"
    by (intro power_mono) simp_all
  then show "(fmt_f (esd_value jd))\<^sup>2 \<le> 1.002001 * (esd_value jd)\<^sup>2"
    by (simp add: power_mult_distrib power2_eq_square)
qed

section \<open>The end-to-end scenario\<close>

lemma run_green:
  "run (projr (main ''tmp.1''
          \<lparr>opt_band = [''Green''], opt_outputsuffix = ''toar'', opt_utc = [], opt_doy = ''100'',
           opt_sea = ''53.8''\<rparr>
          \<lparr>flag_r = False, flag_k = False, flag_i = False\<rparr>))
       (st(''Green'' := (\<lambda>q. 100))) =
   (\<lambda>n. if n = ''Green.toar'' \<or> n = ''tmp.1.Reflectance''
        then (\<lambda>p. 3.141593 * (9713 / 630) * (fmt_f (esd_value 100))\<^sup>2 / 1856.4104 *
                   cos (radians 36.2))
        else if n = ''tmp.1.Radiance'' then (\<lambda>p. 9713 / 630)
        else if n = ''Green'' then (\<lambda>p. 100)
        else st n)"
  by (simp only: main_green sum.sel run_def foldl.simps exec.simps mapcalc_def rad_expr_def
        toar_expr_def eval.simps fmt_f_math_pi fmt_f_green fmt_f_small)
     (auto simp: fun_eq_iff)

lemma cos_squared_gap:
  fixes a b f c E P :: real
  assumes "0 < c" and "0 < E" and "a * (f * c\<^sup>2) < b * P"
  shows "a * f / E * c < b * (P / (E * c))"
proof -
  have "a * f / E * c = (a * (f * c\<^sup>2)) / (E * c)"
    using assms(1,2) by (simp add: power2_eq_square field_simps)
  also have "\<dots> < (b * P) / (E * c)"
    using assms by (intro divide_strict_right_mono) simp_all
  also have "\<dots> = b * (P / (E * c))"
    by simp
  finally show ?thesis .
qed

lemma green_numbers:
  fixes X Y Z :: real
  assumes "X < 1.002001 * Y * (3 / 4)" and "3 * Y \<le> Z" and "0 < Y"
  shows "3.141593 * (9713 / 630) * X < 0.8 * (15.4175 * Z)"
  using assms by simp

lemma green_reflectance_gap:
  "3.141593 * (9713 / 630) * (fmt_f (esd_value 100))\<^sup>2 / 1856.4104 * cos (radians 36.2) <
   0.8 * (pi * 15.4175 * (esd_value 100)\<^sup>2 / (1856.4104 * cos (radians 36.2)))"
proof -
  let ?e = "esd_value 100" and ?f = "fmt_f (esd_value 100)" and ?c = "cos (radians 36.2)"
  have epos: "0 < ?e\<^sup>2"
    using esd_value_bounds(1) [of 100] by simp
  have "?f\<^sup>2 * ?c\<^sup>2 < ?f\<^sup>2 * (3 / 4)"
    using fmt_f_esd_bounds(1) [of 100] cos_sza_bounds(2) by (intro mult_strict_left_mono) simp_all
  also have "\<dots> \<le> 1.002001 * ?e\<^sup>2 * (3 / 4)"
    using fmt_f_esd_bounds(2) [of 100] by (intro mult_right_mono) simp_all
  finally have X: "?f\<^sup>2 * ?c\<^sup>2 < 1.002001 * ?e\<^sup>2 * (3 / 4)" .
  have Z: "3 * ?e\<^sup>2 \<le> pi * ?e\<^sup>2"
    using pi_ge_3 by (intro mult_right_mono) simp_all
  have "3.141593 * (9713 / 630) * (?f\<^sup>2 * ?c\<^sup>2) < 0.8 * (15.4175 * (pi * ?e\<^sup>2))"
    using X Z epos by (rule green_numbers)
  also have "0.8 * (15.4175 * (pi * ?e\<^sup>2)) = 0.8 * (pi * 15.4175 * ?e\<^sup>2)"
    by simp
  finally have "3.141593 * (9713 / 630) * (?f\<^sup>2 * ?c\<^sup>2) < 0.8 * (pi * 15.4175 * ?e\<^sup>2)" .
  with cos_sza_bounds(1) show ?thesis
    by (intro cos_squared_gap) simp_all
qed

text \<open>
  C9.  The run on the band Green with every digital number 100, the day of year 100 and
  the sun elevation 53.8: the radiance cell is \<open>0.009713 * 100 / 0.063 = 9713 / 630\<close>
  (the calibration factor enters the expression with six decimals), more than 0.0001
  below \<open>0.009713071 * 100 / 0.0630\<close>; the reflectance cell delivered as \<open>Green.toar\<close>
  is less than four fifths of \<open>\<pi> * 15.4175 * esd\<^sup>2 / (1856.4104 * cos 36.2\<degree>)\<close>, since
  the cosine multiplies instead of dividing.
\<close>

theorem end_to_end_green_diverges:
  "jd_to_esd 100 = Inr (esd_value 100)
   \<and> run (projr (main ''tmp.1''
          \<lparr>opt_band = [''Green''], opt_outputsuffix = ''toar'', opt_utc = [], opt_doy = ''100'',
           opt_sea = ''53.8''\<rparr>
          \<lparr>flag_r = False, flag_k = False, flag_i = False\<rparr>))
        (st(''Green'' := (\<lambda>q. 100))) ''tmp.1.Radiance'' p = 9713 / 630
   \<and> (9713 / 630 :: real) < 0.009713071 * 100 / 0.0630 - 0.0001
   \<and> run (projr (main ''tmp.1''
          \<lparr>opt_band = [''Green''], opt_outputsuffix = ''toar'', opt_utc = [], opt_doy = ''100'',
           opt_sea = ''53.8''\<rparr>
          \<lparr>flag_r = False, flag_k = False, flag_i = False\<rparr>))
        (st(''Green'' := (\<lambda>q. 100))) ''Green.toar'' p <
       0.8 * (pi * 15.4175 * (esd_value 100)\<^sup>2 / (1856.4104 * cos (radians 36.2)))
   \<and> 0 < pi * 15.4175 * (esd_value 100)\<^sup>2 / (1856.4104 * cos (radians 36.2))"
proof -
  have esd: "jd_to_esd 100 = Inr (esd_value 100)"
    by (rule jd_to_esd_value)
  have rad: "run (projr (main ''tmp.1''
          \<lparr>opt_band = [''Green''], opt_outputsuffix = ''toar'', opt_utc = [], opt_doy = ''100'',
           opt_sea = ''53.8''\<rparr>
          \<lparr>flag_r = False, flag_k = False, flag_i = False\<rparr>))
        (st(''Green'' := (\<lambda>q. 100))) ''tmp.1.Radiance'' p = 9713 / 630"
    unfolding run_green by simp
  have gap: "(9713 / 630 :: real) < 0.009713071 * 100 / 0.0630 - 0.0001"
    by simp
  have refl: "run (projr (main ''tmp.1''
          \<lparr>opt_band = [''Green''], opt_outputsuffix = ''toar'', opt_utc = [], opt_doy = ''100'',
           opt_sea = ''53.8''\<rparr>
          \<lparr>flag_r = False, flag_k = False, flag_i = False\<rparr>))
        (st(''Green'' := (\<lambda>q. 100))) ''Green.toar'' p <
       0.8 * (pi * 15.4175 * (esd_value 100)\<^sup>2 / (1856.4104 * cos (radians 36.2)))"
    unfolding run_green using green_reflectance_gap by simp
  have "0 < (esd_value 100)\<^sup>2"
    using esd_value_bounds(1) [of 100] by simp
  with cos_sza_bounds(1) have pos:
    "0 < pi * 15.4175 * (esd_value 100)\<^sup>2 / (1856.4104 * cos (radians 36.2))"
    by simp
  from esd rad gap refl pos show ?thesis
    by (intro conjI)
qed

section \<open>The radiance of a run\<close>



end
